theory Spec2Isabelle
  imports Main
begin

section \<open>JavaScript strings\<close>

text \<open>
  Strings are lists of 8-bit code units: the characters U+0000 to U+00FF, which hold the
  letters, digits and punctuation a scheme, a host name and a port are written in.
  \<^verbatim>\<open>String.prototype.toLowerCase\<close> on this range maps the letters A to Z (65 to 90)
  and the upper-case Latin-1 letters (192 to 222, without the multiplication sign 215) to
  the code unit 32 above, and leaves every other code unit as it is.
\<close>

definition toLowerChar :: "char \<Rightarrow> char" where
  "toLowerChar c =
     (let n = (of_char c :: nat)
      in if (65 \<le> n \<and> n \<le> 90) \<or> (192 \<le> n \<and> n \<le> 222 \<and> n \<noteq> 215)
         then char_of (n + 32) else c)"

definition toLowerCase :: "string \<Rightarrow> string" where
  "toLowerCase s = map toLowerChar s"

text \<open>\<^verbatim>\<open>s.startsWith(p)\<close>: \<open>p\<close> is a prefix of \<open>s\<close>.\<close>

definition startsWith :: "string \<Rightarrow> string \<Rightarrow> bool" where
  "startsWith s p = (take (length p) s = p)"

text \<open>\<^verbatim>\<open>s.substring(n)\<close>: the characters from index \<open>n\<close> on; empty when \<open>n\<close> is past the end.\<close>

definition substring :: "nat \<Rightarrow> string \<Rightarrow> string" where
  "substring n s = drop n s"

section \<open>The port pattern\<close>

text \<open>
  \<^verbatim>\<open>(/:\d*$/u).exec(url)\<close> returns an array when the pattern matches somewhere in \<open>url\<close>
  and \<^verbatim>\<open>null\<close> otherwise; the source only tests \<^verbatim>\<open>Array.isArray\<close> of the result.
  \<^verbatim>\<open>\d\<close> is a decimal digit, and \<^verbatim>\<open>$\<close> (no multiline flag) is the end of the input.
  \<open>matchesPortHere\<close> is a match that starts at the head of the string, \<open>portRegexExec\<close>
  tries every start position from left to right.
\<close>

definition isDigit :: "char \<Rightarrow> bool" where
  "isDigit c = (let n = (of_char c :: nat) in 48 \<le> n \<and> n \<le> 57)"

fun matchesPortHere :: "string \<Rightarrow> bool" where
  "matchesPortHere [] = False"
| "matchesPortHere (c # cs) = (c = CHR '':'' \<and> list_all isDigit cs)"

fun portRegexExec :: "string \<Rightarrow> bool" where
  "portRegexExec [] = False"
| "portRegexExec (c # cs) = (matchesPortHere (c # cs) \<or> portRegexExec cs)"

section \<open>Domain.cleanDomainUrl\<close>

text \<open>
  \<open>P\<close> and \<open>N\<close> are the values \<^verbatim>\<open>Config.getItem(DEFAULT_DOMAIN_PROTOCOL)\<close> and
  \<^verbatim>\<open>Config.getItem(DEFAULT_DOMAIN_PORT)\<close> return: the configuration module is not part of
  the sources at hand, so the two configured strings are parameters.
\<close>

definition cleanDomainUrl :: "string \<Rightarrow> string \<Rightarrow> string \<Rightarrow> string" where
  "cleanDomainUrl P N pUrl =
     (let url = toLowerCase pUrl;
          url = (if startsWith url ''http://'' then substring 7 url else url);
          url = (if startsWith url ''https://'' then substring 8 url else url);
          url = (if \<not> startsWith url ''ws://'' then P @ ''//'' @ url else url);
          ifPort = portRegexExec url;
          url = (if \<not> ifPort then url @ '':'' @ N else url)
      in url)"

text \<open>
  The value of \<^verbatim>\<open>url\<close> when control reaches the port test (source lines 155 to 167):
  the same statements as above, without the last one.
\<close>

definition urlBeforePortTest :: "string \<Rightarrow> string \<Rightarrow> string" where
  "urlBeforePortTest P pUrl =
     (let url = toLowerCase pUrl;
          url = (if startsWith url ''http://'' then substring 7 url else url);
          url = (if startsWith url ''https://'' then substring 8 url else url);
          url = (if \<not> startsWith url ''ws://'' then P @ ''//'' @ url else url)
      in url)"

section \<open>The collaborators of the Domain manager\<close>

text \<open>
  Modelled from the spec: the SDK classes \<^verbatim>\<open>DomainServer\<close> and \<^verbatim>\<open>ConnectionState\<close> and the
  class \<^verbatim>\<open>DomainAudio\<close> are imported by the source and are not part of it.
  The raw connection states the SDK reports are five; the source names them
  \<^verbatim>\<open>DomainServer.DISCONNECTED\<close>, \<^verbatim>\<open>CONNECTING\<close>, \<^verbatim>\<open>CONNECTED\<close>, \<^verbatim>\<open>REFUSED\<close> and
  \<^verbatim>\<open>ERROR\<close>.
\<close>

datatype ConnectionState = DISCONNECTED | CONNECTING | CONNECTED | REFUSED | ERROR

text \<open>
  Modelled from the spec: a \<^verbatim>\<open>DomainServer\<close> object of the SDK (the spec's Connection
  Session, an opaque resource with connect, disconnect, a state-changed callback hook and
  a context handle), as far as the manager touches it: the
  \<^verbatim>\<open>contextID\<close> it was constructed with, the manager whose handler is stored in
  \<^verbatim>\<open>onStateChanged\<close> (the handler is \<^verbatim>\<open>_handleOnDomainStateChange.bind(this)\<close>, so it
  is determined by the identity of \<^verbatim>\<open>this\<close>), and the url \<^verbatim>\<open>connect\<close> was called with.
  The constructor is the SDK's: the context id it picks is a parameter of the model.
\<close>

record DomainServer =
  contextID :: nat
  onStateChanged :: "nat option"
  connectCalledWith :: "string option"

definition newDomainServer :: "nat \<Rightarrow> DomainServer" where
  "newDomainServer cid = \<lparr>contextID = cid, onStateChanged = None, connectCalledWith = None\<rparr>"

text \<open>
  Modelled from the spec: \<^verbatim>\<open>new DomainAudio(contextID)\<close>, the Audio Session constructed
  from the session's context handle.
\<close>

datatype DomainAudio = DomainAudio nat

text \<open>
  Modelled from the spec: the \<^verbatim>\<open>Signal\<close> class is imported by the source and is not part
  of it. The spec describes it as a synchronous publish/subscribe primitive where one
  producer call invokes all registered callbacks with the arguments given, with no
  queuing. A Signal is represented by the sequence of its \<^verbatim>\<open>emit\<close> calls, each with
  the three arguments the manager passes: the manager (its object identity), the display
  string of the state, and the info string.
\<close>

type_synonym emission = "nat \<times> string \<times> string"

record Signal =
  emitted :: "emission list"

definition newSignal :: Signal where
  "newSignal = \<lparr>emitted = []\<rparr>"

definition emit :: "emission \<Rightarrow> Signal \<Rightarrow> Signal" where
  "emit args sg = sg\<lparr>emitted := emitted sg @ [args]\<rparr>"

text \<open>
  Modelled from the spec: the persistent configuration store \<^verbatim>\<open>Config\<close> is imported by
  the source and is not part of it. The spec describes it as key/value persistence with
  get, set and default semantics.
\<close>

type_synonym Config = "string \<rightharpoonup> string"

definition getItem :: "Config \<Rightarrow> string \<Rightarrow> string \<Rightarrow> string" where
  "getItem cfg key dflt = (case cfg key of None \<Rightarrow> dflt | Some v \<Rightarrow> v)"

definition setItem :: "string \<Rightarrow> string \<Rightarrow> Config \<Rightarrow> Config" where
  "setItem key v cfg = cfg(key \<mapsto> v)"

text \<open>\<^verbatim>\<open>DomainPersist.DOMAIN_URL\<close>\<close>

definition DOMAIN_URL :: string where
  "DOMAIN_URL = ''Domain.Url''"

section \<open>The Domain manager\<close>

text \<open>
  The fields of class \<^verbatim>\<open>Domain\<close>: \<open>ident\<close> is the object's identity (what JavaScript
  passes as \<^verbatim>\<open>this\<close>), \<open>domainUrl\<close> is \<^verbatim>\<open>#_domainUrl\<close>, \<open>domain\<close> is \<^verbatim>\<open>#_domain\<close>
  (\<open>None\<close> for \<^verbatim>\<open>undefined\<close>), \<open>audioClient\<close> is \<^verbatim>\<open>#_audioClient\<close>.
  The record \<open>world\<close> adds what the methods reach outside the object: the configuration
  store, and the log of every \<^verbatim>\<open>new DomainAudio\<close> executed so far.
  Calls to \<^verbatim>\<open>Log\<close> only write diagnostics and are left out.
\<close>

record Domain =
  ident :: nat
  domainUrl :: string
  domain :: "DomainServer option"
  audioClient :: "DomainAudio option"
  onStateChange :: Signal

record world = Domain +
  config :: Config
  constructedAudio :: "DomainAudio list"

datatype error = Error string

definition restorePersistentVariables :: "world \<Rightarrow> world" where
  "restorePersistentVariables w = w\<lparr>domainUrl := getItem (config w) DOMAIN_URL ''UNKNOWN''\<rparr>"

definition storePersistentVariables :: "world \<Rightarrow> world" where
  "storePersistentVariables w = w\<lparr>config := setItem DOMAIN_URL (domainUrl w) (config w)\<rparr>"

text \<open>
  \<^verbatim>\<open>new Domain()\<close> in a world whose configuration store is \<open>cfg\<close>: the field
  initialisers, then the constructor body.
\<close>

definition newDomain :: "nat \<Rightarrow> Config \<Rightarrow> world" where
  "newDomain this cfg =
     restorePersistentVariables
       \<lparr>ident = this, domainUrl = ''UNKNOWN'', domain = None, audioClient = None,
        onStateChange = newSignal, config = cfg, constructedAudio = []\<rparr>"

text \<open>
  \<^verbatim>\<open>connect(pUrl)\<close>. The result pairs the outcome (\<open>Inl\<close> the error thrown, \<open>Inr\<close> the
  manager returned) with the world the call leaves behind. \<open>cid\<close> is the context id of
  the \<^verbatim>\<open>DomainServer\<close> the SDK constructs.
\<close>

definition connect ::
  "string \<Rightarrow> string \<Rightarrow> nat \<Rightarrow> string \<Rightarrow> world \<Rightarrow> (error + nat) \<times> world" where
  "connect P N cid pUrl w =
     (if domain w \<noteq> None
      then (Inl (Error ''Attempt to connect to domain when already connected''), w)
      else
        let w = w\<lparr>domainUrl := cleanDomainUrl P N pUrl\<rparr>;
            srv = newDomainServer cid;
            srv = srv\<lparr>onStateChanged := Some (ident w)\<rparr>;
            srv = srv\<lparr>connectCalledWith := Some (domainUrl w)\<rparr>;
            w = w\<lparr>domain := Some srv\<rparr>
        in (Inr (ident w), w))"

text \<open>
  \<^verbatim>\<open>disconnect()\<close>: the session object is told to disconnect and the reference to it is
  dropped. No statement of the method throws.
\<close>

definition disconnect :: "world \<Rightarrow> (error + unit) \<times> world" where
  "disconnect w =
     (case domain w of
        Some srv \<Rightarrow> (Inr (), w\<lparr>domain := None\<rparr>)
      | None \<Rightarrow> (Inr (), w))"

text \<open>
  \<^verbatim>\<open>_handleOnDomainStateChange(pState, pInfo)\<close>. \<open>toStr\<close> is the SDK's
  \<^verbatim>\<open>DomainServer.stateToString\<close>.
\<close>

definition handleOnDomainStateChange ::
  "(ConnectionState \<Rightarrow> string) \<Rightarrow> ConnectionState \<Rightarrow> string \<Rightarrow> world \<Rightarrow> world" where
  "handleOnDomainStateChange toStr pState pInfo w =
     (let w =
        (if pState = CONNECTED
         then (case domain w of
                 Some srv \<Rightarrow>
                   (if audioClient w = None
                    then w\<lparr>audioClient := Some (DomainAudio (contextID srv)),
                           constructedAudio := constructedAudio w @ [DomainAudio (contextID srv)]\<rparr>
                    else w)
               | None \<Rightarrow> w)
         else w)
      in w\<lparr>onStateChange := emit (ident w, toStr pState, pInfo) (onStateChange w)\<rparr>)"

section \<open>Sequences of calls\<close>

text \<open>
  What can happen to a manager: a call of \<open>connect\<close> (with the url, and the context id
  the SDK gives the new session), a call of \<open>disconnect\<close>, and an invocation of the
  state-change handler by the transport. A \<open>connect\<close> that throws leaves the world as it
  is and the sequence goes on. A callback the SDK makes from inside its own
  \<^verbatim>\<open>connect\<close> or \<^verbatim>\<open>disconnect\<close> runs after the last assignment of
  \<open>connect\<close> and before the one assignment of \<open>disconnect\<close>, so it is the event next to
  the call in the sequence.
\<close>

datatype event = Connect string nat | Disconnect | StateChanged ConnectionState string

fun step :: "string \<Rightarrow> string \<Rightarrow> (ConnectionState \<Rightarrow> string) \<Rightarrow> event \<Rightarrow> world \<Rightarrow> world" where
  "step P N toStr (Connect pUrl cid) w = snd (connect P N cid pUrl w)"
| "step P N toStr Disconnect w = snd (disconnect w)"
| "step P N toStr (StateChanged pState pInfo) w = handleOnDomainStateChange toStr pState pInfo w"

fun run :: "string \<Rightarrow> string \<Rightarrow> (ConnectionState \<Rightarrow> string) \<Rightarrow> event list \<Rightarrow> world \<Rightarrow> world" where
  "run P N toStr [] w = w"
| "run P N toStr (e # es) w = run P N toStr es (step P N toStr e w)"

text \<open>A sequence of raw transitions delivered to the handler, in order.\<close>

fun deliver ::
  "(ConnectionState \<Rightarrow> string) \<Rightarrow> (ConnectionState \<times> string) list \<Rightarrow> world \<Rightarrow> world" where
  "deliver toStr [] w = w"
| "deliver toStr ((pState, pInfo) # ts) w =
     deliver toStr ts (handleOnDomainStateChange toStr pState pInfo w)"

text \<open>
  The display strings of the SDK's \<^verbatim>\<open>stateToString\<close> are not in the sources; the
  examples below use the names of the states.
\<close>

fun stateName :: "ConnectionState \<Rightarrow> string" where
  "stateName DISCONNECTED = ''DISCONNECTED''"
| "stateName CONNECTING = ''CONNECTING''"
| "stateName CONNECTED = ''CONNECTED''"
| "stateName REFUSED = ''REFUSED''"
| "stateName ERROR = ''ERROR''"

section \<open>What the manager has observed\<close>

text \<open>
  A reading of a sequence of events, computed from the sequence alone. The pair is
  (a Connection Session is live, a Connected state has been observed since that session
  was created): the observation is forgotten when a session is created and when it is
  discarded, and a \<open>connect\<close> that finds a live session changes nothing.
\<close>

fun observeSince :: "bool \<times> bool \<Rightarrow> event \<Rightarrow> bool \<times> bool" where
  "observeSince (live, seen) (Connect pUrl cid) = (if live then (live, seen) else (True, False))"
| "observeSince (live, seen) Disconnect = (False, False)"
| "observeSince (live, seen) (StateChanged pState pInfo) =
     (live, seen \<or> (live \<and> pState = CONNECTED))"

definition connectedSinceSession :: "event list \<Rightarrow> bool" where
  "connectedSinceSession evs = snd (foldl observeSince (False, False) evs)"

section \<open>ShapeEntityBuilder\<close>

text \<open>
  A component of a game object: the controller the Shape builder constructs from an
  entity record, or any other component (by its type name). The entity record is left
  polymorphic: \<^verbatim>\<open>entity as IShapeEntity\<close> is a cast of the type checker and does nothing
  when the program runs.
\<close>

datatype 'e Component = ShapeEntityController 'e | OtherComponent string

text \<open>
  Modelled from the spec: \<^verbatim>\<open>GameObject\<close> is imported by the source and is not part of it.
  The spec describes the Composite Object as an identifier and a collection of behaviour
  components in insertion order, whose one operation for builders is adding a component,
  and says that a repeated call of a builder duplicates components.
\<close>

record 'e GameObject =
  objectId :: string
  components :: "'e Component list"

definition addComponent :: "'e Component \<Rightarrow> 'e GameObject \<Rightarrow> 'e GameObject" where
  "addComponent c gameObject = gameObject\<lparr>components := components gameObject @ [c]\<rparr>"

definition build :: "'e GameObject \<Rightarrow> 'e \<Rightarrow> 'e GameObject" where
  "build gameObject entity = addComponent (ShapeEntityController entity) gameObject"

section \<open>Facts about strings and the port pattern\<close>

lemmas string_defs = cleanDomainUrl_def urlBeforePortTest_def toLowerCase_def toLowerChar_def
  startsWith_def substring_def isDigit_def

lemma cleanDomainUrl_port_step:
  "cleanDomainUrl P N pUrl =
     (if portRegexExec (urlBeforePortTest P pUrl) then urlBeforePortTest P pUrl
      else urlBeforePortTest P pUrl @ '':'' @ N)"
  by (simp add: cleanDomainUrl_def urlBeforePortTest_def Let_def)

lemma matchesPortHere_append:
  "xs \<noteq> [] \<Longrightarrow> matchesPortHere (xs @ ys) = (matchesPortHere xs \<and> list_all isDigit ys)"
  by (cases xs) auto

text \<open>
  A match in \<open>xs @ ys\<close> starts in \<open>ys\<close>, or it starts in \<open>xs\<close> and then all of \<open>ys\<close> is
  digits.
\<close>

lemma portRegexExec_append:
  "portRegexExec (xs @ ys) = (portRegexExec ys \<or> (list_all isDigit ys \<and> portRegexExec xs))"
proof (induction xs)
  case Nil
  show ?case by simp
next
  case (Cons x xs)
  have "portRegexExec ((x # xs) @ ys) = (matchesPortHere ((x # xs) @ ys) \<or> portRegexExec (xs @ ys))"
    by simp
  also have "\<dots> = ((matchesPortHere (x # xs) \<and> list_all isDigit ys) \<or> portRegexExec (xs @ ys))"
    using matchesPortHere_append [of "x # xs" ys] by simp
  finally show ?case using Cons.IH by auto
qed

lemma portRegexExec_ends_colon:
  assumes "s \<noteq> []" "last s = CHR '':''"
  shows "portRegexExec s"
proof -
  have "s = butlast s @ '':''" using assms by (metis append_butlast_last_id)
  then have "portRegexExec s = portRegexExec (butlast s @ '':'')" by simp
  then show ?thesis by (simp add: portRegexExec_append)
qed

text \<open>
  Lower-casing at the borders of the two ranges: A, Z and the Latin-1 letters from
  U+00C0 to U+00DE move, the multiplication sign U+00D7, the sharp s U+00DF and the
  characters around A to Z stay.
\<close>

lemma toLowerCase_range_examples:
  "toLowerCase [CHR ''A'', CHR ''Z'', CHR ''@'', CHR ''['', CHR 0xC0, CHR 0xC9, CHR 0xD7,
                CHR 0xDE, CHR 0xDF, CHR 0xFF]
   = [CHR ''a'', CHR ''z'', CHR ''@'', CHR ''['', CHR 0xE0, CHR 0xE9, CHR 0xD7,
      CHR 0xFE, CHR 0xDF, CHR 0xFF]"
  by code_simp

lemma cleanDomainUrl_upper_case_example:
  "cleanDomainUrl ''ws:'' ''40102'' ''HTTP://Example.COM'' = ''ws://example.com:40102''"
  by code_simp

lemma toLowerChar_idem: "toLowerChar (toLowerChar c) = toLowerChar c"
  by (simp add: toLowerChar_def Let_def)

lemma toLowerCase_idem: "toLowerCase (toLowerCase s) = toLowerCase s"
  by (simp add: toLowerCase_def toLowerChar_idem)

lemma toLowerCase_append: "toLowerCase (a @ b) = toLowerCase a @ toLowerCase b"
  by (simp add: toLowerCase_def)

lemma toLowerCase_substring: "toLowerCase (substring n s) = substring n (toLowerCase s)"
  by (simp add: toLowerCase_def substring_def drop_map)

lemma toLowerChar_colon: "toLowerChar CHR '':'' = CHR '':''"
  by (simp add: toLowerChar_def)

lemma isDigit_lower: "isDigit c \<Longrightarrow> toLowerChar c = c"
  by (auto simp add: toLowerChar_def isDigit_def Let_def)

lemma digits_lower: "list_all isDigit N \<Longrightarrow> toLowerCase N = N"
  by (induction N) (auto simp: toLowerCase_def isDigit_lower)

lemma startsWith_decomp: "startsWith s p \<Longrightarrow> s = p @ substring (length p) s"
  using append_take_drop_id [of "length p" s] by (simp add: startsWith_def substring_def)

lemma startsWith_append: "startsWith a p \<Longrightarrow> startsWith (a @ b) p"
proof -
  assume h: "startsWith a p"
  then have "length (take (length p) a) = length p"
    by (simp add: startsWith_def)
  then have "length p \<le> length a"
    by simp
  then show ?thesis using h by (simp add: startsWith_def)
qed

lemma startsWith_iff: "startsWith s p \<longleftrightarrow> (\<exists>r. s = p @ r)"
proof
  assume "startsWith s p"
  then have "s = p @ substring (length p) s" by (rule startsWith_decomp)
  then show "\<exists>r. s = p @ r" ..
next
  assume "\<exists>r. s = p @ r"
  then show "startsWith s p" by (auto simp: startsWith_def)
qed

lemma startsWith_hd: "startsWith y p \<Longrightarrow> p \<noteq> [] \<Longrightarrow> hd y = hd p"
  by (auto simp: startsWith_iff)

lemma ws_not_http: "startsWith y ''ws://'' \<Longrightarrow> \<not> startsWith y ''http://''"
  using startsWith_hd [of y "''ws://''"] startsWith_hd [of y "''http://''"] by auto

lemma ws_not_https: "startsWith y ''ws://'' \<Longrightarrow> \<not> startsWith y ''https://''"
  using startsWith_hd [of y "''ws://''"] startsWith_hd [of y "''https://''"] by auto

text \<open>
  A lower-case string that starts with the websocket prefix and ends in a port is left as
  it is.
\<close>

lemma cleanDomainUrl_fixed:
  assumes "toLowerCase y = y" "startsWith y ''ws://''" "portRegexExec y"
  shows "cleanDomainUrl P N y = y"
  using assms ws_not_http [of y] ws_not_https [of y]
  by (simp add: cleanDomainUrl_def Let_def)

lemma urlBeforePortTest_lower:
  "toLowerCase P = P \<Longrightarrow> toLowerCase (urlBeforePortTest P x) = urlBeforePortTest P x"
proof -
  assume P: "toLowerCase P = P"
  have s: "toLowerCase (''//'' @ u) = ''//'' @ toLowerCase u" for u
    by (simp add: toLowerCase_def toLowerChar_def)
  have "toLowerCase (P @ ''//'' @ u) = P @ ''//'' @ toLowerCase u" for u
    using P s [of u] by (simp only: toLowerCase_append)
  then show ?thesis
    by (simp add: urlBeforePortTest_def Let_def toLowerCase_substring toLowerCase_idem
        del: append.simps)
qed

lemma urlBeforePortTest_ws:
  assumes "startsWith (P @ ''//'') ''ws://''"
  shows "startsWith (urlBeforePortTest P x) ''ws://''"
proof -
  have "startsWith (P @ ''//'' @ u) ''ws://''" for u
    using startsWith_append [OF assms, of u] by simp
  then show ?thesis by (simp add: urlBeforePortTest_def Let_def)
qed

lemma substring_ends_colon:
  assumes "startsWith s p" "s \<noteq> []" "last s = CHR '':''" "last p \<noteq> CHR '':''" "p \<noteq> []"
    and n: "length p = n"
  shows "substring n s \<noteq> [] \<and> last (substring n s) = CHR '':''"
proof -
  let ?r = "substring n s"
  have s: "s = p @ ?r" using assms(1) n startsWith_decomp by blast
  have "?r \<noteq> []"
  proof
    assume "?r = []"
    with s have "s = p" by simp
    with assms show False by simp
  qed
  moreover from this have "last ?r = last s" using s by (metis last_appendR)
  ultimately show ?thesis using assms by simp
qed

lemma urlBeforePortTest_ends_colon:
  assumes "pUrl \<noteq> []" "last pUrl = CHR '':''"
  shows "urlBeforePortTest P pUrl \<noteq> [] \<and> last (urlBeforePortTest P pUrl) = CHR '':''"
proof -
  let ?a = "toLowerCase pUrl"
  let ?b = "if startsWith ?a ''http://'' then substring 7 ?a else ?a"
  let ?c = "if startsWith ?b ''https://'' then substring 8 ?b else ?b"
  have a: "?a \<noteq> [] \<and> last ?a = CHR '':''"
    using assms by (simp add: toLowerCase_def last_map toLowerChar_colon)
  have b: "?b \<noteq> [] \<and> last ?b = CHR '':''"
    using a substring_ends_colon [of ?a "''http://''" 7] by simp
  have c: "?c \<noteq> [] \<and> last ?c = CHR '':''"
    using b substring_ends_colon [of ?b "''https://''" 8] by simp
  show ?thesis using c by (simp add: urlBeforePortTest_def Let_def)
qed

section \<open>Facts about the methods of the manager\<close>

lemmas world_defs = newDomain_def restorePersistentVariables_def storePersistentVariables_def
  getItem_def setItem_def DOMAIN_URL_def newSignal_def emit_def newDomainServer_def

lemmas op_defs = connect_def disconnect_def handleOnDomainStateChange_def Let_def

lemma newDomain_fields:
  "domain (newDomain this cfg) = None" "audioClient (newDomain this cfg) = None"
  by (simp_all add: newDomain_def restorePersistentVariables_def)

lemma handle_domain: "domain (handleOnDomainStateChange toStr s i w) = domain w"
  by (simp add: handleOnDomainStateChange_def Let_def split: option.splits)

lemma handle_ident: "ident (handleOnDomainStateChange toStr s i w) = ident w"
  by (simp add: handleOnDomainStateChange_def Let_def split: option.splits)

lemma handle_emitted:
  "emitted (onStateChange (handleOnDomainStateChange toStr s i w)) =
     emitted (onStateChange w) @ [(ident w, toStr s, i)]"
  by (simp add: handleOnDomainStateChange_def Let_def emit_def split: option.splits)

lemma handle_audioClient:
  "audioClient (handleOnDomainStateChange toStr s i w) =
     (case domain w of
        Some srv \<Rightarrow> if s = CONNECTED \<and> audioClient w = None
                    then Some (DomainAudio (contextID srv)) else audioClient w
      | None \<Rightarrow> audioClient w)"
  by (auto simp add: handleOnDomainStateChange_def Let_def split: option.splits)

lemma handle_constructedAudio:
  "constructedAudio (handleOnDomainStateChange toStr s i w) =
     constructedAudio w @
     (case domain w of
        Some srv \<Rightarrow> if s = CONNECTED \<and> audioClient w = None
                    then [DomainAudio (contextID srv)] else []
      | None \<Rightarrow> [])"
  by (auto simp add: handleOnDomainStateChange_def Let_def split: option.splits)

lemma connect_domain_live:
  "domain (snd (connect P N cid pUrl w)) \<noteq> None"
  by (simp add: connect_def Let_def)

lemma connect_audioClient:
  "audioClient (snd (connect P N cid pUrl w)) = audioClient w"
  by (simp add: connect_def Let_def)

lemma connect_constructedAudio:
  "constructedAudio (snd (connect P N cid pUrl w)) = constructedAudio w"
  by (simp add: connect_def Let_def)

lemma disconnect_domain: "domain (snd (disconnect w)) = None"
  by (simp add: disconnect_def split: option.splits)

lemma disconnect_audioClient: "audioClient (snd (disconnect w)) = audioClient w"
  by (simp add: disconnect_def split: option.splits)

text \<open>
  One step of the manager against one step of the reading of the history: the first
  component follows \<open>domain\<close>, the second implies the presence of an audio client.
\<close>

lemma step_observeSince:
  assumes "seen \<longrightarrow> audioClient w \<noteq> None"
  shows "fst (observeSince (domain w \<noteq> None, seen) e) = (domain (step P N toStr e w) \<noteq> None)
    \<and> (snd (observeSince (domain w \<noteq> None, seen) e) \<longrightarrow>
         audioClient (step P N toStr e w) \<noteq> None)"
proof (cases e)
  case (Connect pUrl cid)
  then show ?thesis using assms by (auto simp add: connect_def Let_def)
next
  case Disconnect
  then show ?thesis by (simp add: disconnect_domain)
next
  case (StateChanged s i)
  then show ?thesis using assms
    by (auto simp add: handle_domain handle_audioClient split: option.splits)
qed

lemma run_observeSince:
  assumes "seen \<longrightarrow> audioClient w \<noteq> None"
  shows "snd (foldl observeSince (domain w \<noteq> None, seen) evs) \<longrightarrow>
     audioClient (run P N toStr evs w) \<noteq> None"
  using assms
proof (induction evs arbitrary: w seen)
  case Nil
  then show ?case by simp
next
  case (Cons e evs)
  let ?w = "step P N toStr e w"
  obtain l s where ls: "observeSince (domain w \<noteq> None, seen) e = (l, s)"
    by (cases "observeSince (domain w \<noteq> None, seen) e")
  have st: "fst (observeSince (domain w \<noteq> None, seen) e) = (domain ?w \<noteq> None)
    \<and> (snd (observeSince (domain w \<noteq> None, seen) e) \<longrightarrow> audioClient ?w \<noteq> None)"
    using Cons.prems by (rule step_observeSince)
  have l: "l = (domain ?w \<noteq> None)" using st unfolding ls by simp
  have s: "s \<longrightarrow> audioClient ?w \<noteq> None" using st unfolding ls by simp
  have "snd (foldl observeSince (domain ?w \<noteq> None, s) evs) \<longrightarrow>
     audioClient (run P N toStr evs ?w) \<noteq> None"
    using s by (rule Cons.IH)
  then have "snd (foldl observeSince (l, s) evs) \<longrightarrow> audioClient (run P N toStr evs ?w) \<noteq> None"
    by (simp only: l)
  then show ?case by (simp only: foldl_Cons ls run.simps)
qed

lemma deliver_domain: "domain (deliver toStr ts w) = domain w"
proof (induction ts arbitrary: w)
  case Nil
  show ?case by simp
next
  case (Cons t ts)
  obtain s i where t: "t = (s, i)" by (cases t)
  show ?case by (simp add: t Cons.IH handle_domain)
qed

text \<open>
  While one session is live, a run of callbacks constructs an audio client only if none
  is held and a Connected state is among them, and then exactly one, for the session's
  context.
\<close>

lemma deliver_audio:
  assumes "domain w = Some srv"
  shows "constructedAudio (deliver toStr ts w) =
      constructedAudio w @
      (if audioClient w = None \<and> CONNECTED \<in> fst ` set ts then [DomainAudio (contextID srv)] else [])
    \<and> audioClient (deliver toStr ts w) =
      (if audioClient w = None \<and> CONNECTED \<in> fst ` set ts then Some (DomainAudio (contextID srv))
       else audioClient w)"
  using assms
proof (induction ts arbitrary: w)
  case Nil
  show ?case by simp
next
  case (Cons t ts)
  obtain s i where t: "t = (s, i)" by (cases t)
  let ?w = "handleOnDomainStateChange toStr s i w"
  have d: "domain ?w = Some srv" using Cons.prems by (simp add: handle_domain)
  have a: "audioClient ?w =
      (if s = CONNECTED \<and> audioClient w = None then Some (DomainAudio (contextID srv))
       else audioClient w)"
    using Cons.prems by (simp add: handle_audioClient)
  have c: "constructedAudio ?w = constructedAudio w @
      (if s = CONNECTED \<and> audioClient w = None then [DomainAudio (contextID srv)] else [])"
    using Cons.prems by (simp add: handle_constructedAudio)
  show ?case using Cons.IH [OF d] a c by (auto simp add: t)
qed

section \<open>Claims about the Domain manager\<close>

text \<open>
  The direction of the invariant that every reachable state satisfies: once a Connected
  state was observed since the current Connection Session was created, an audio client
  exists.
\<close>

lemma connected_since_session_has_audio:
  "connectedSinceSession evs \<longrightarrow>
     audioClient (run P N toStr evs (newDomain this cfg)) \<noteq> None"
proof -
  let ?w0 = "newDomain this cfg"
  have "snd (foldl observeSince (domain ?w0 \<noteq> None, False) evs) \<longrightarrow>
     audioClient (run P N toStr evs ?w0) \<noteq> None"
    by (rule run_observeSince) simp
  then show ?thesis
    by (simp add: connectedSinceSession_def newDomain_fields)
qed

text \<open>
  Claim C1. The claim: in every reachable state an Audio Session exists if and only if
  a Connected state was observed since the current Connection Session was created, and
  \<open>disconnect\<close> discards both the Connection Session and the Audio Session. The code at
  the sequence connect, Connected, disconnect on a new manager: \<open>disconnect\<close> clears
  \<^verbatim>\<open>#_domain\<close> and not \<^verbatim>\<open>#_audioClient\<close>, so no session is left, no Connected state was
  observed since a current session was created, and the audio client that the handler
  constructed for the context of the discarded session is still held.
\<close>

theorem disconnect_keeps_audio_client:
  "domain (run ''ws:'' ''40102'' stateName
      [Connect ''example.com'' 1, StateChanged CONNECTED [], Disconnect]
      (newDomain 0 Map.empty)) = None
   \<and> \<not> connectedSinceSession [Connect ''example.com'' 1, StateChanged CONNECTED [], Disconnect]
   \<and> audioClient (run ''ws:'' ''40102'' stateName
      [Connect ''example.com'' 1, StateChanged CONNECTED [], Disconnect]
      (newDomain 0 Map.empty)) = Some (DomainAudio 1)
   \<and> audioClient (snd (disconnect (run ''ws:'' ''40102'' stateName
      [Connect ''example.com'' 1, StateChanged CONNECTED []] (newDomain 0 Map.empty)))) =
       Some (DomainAudio 1)"
  by (simp add: op_defs world_defs connectedSinceSession_def)

text \<open>
  Claim C2, as amended. The claim says that \<open>connect\<close>, called with no live session,
  writes the normalized url to the configuration store under the domain-URL key. The
  method assigns the normalized url to the field \<^verbatim>\<open>#_domainUrl\<close> only; the one statement
  that writes the store is in \<open>storePersistentVariables\<close>, which \<open>connect\<close> does not
  call. What holds: with no live session, \<open>connect\<close> returns the manager, sets its domain
  url to the normalized url, constructs the new session, registers the manager's handler
  on it and calls its connect with the normalized url; the configuration store is as it
  was; a call of \<open>storePersistentVariables\<close> after it writes the normalized url under
  the domain-URL key.
\<close>

theorem connect_without_session:
  assumes "domain w = None"
  shows "connect P N cid pUrl w =
      (Inr (ident w),
       w\<lparr>domainUrl := cleanDomainUrl P N pUrl,
         domain := Some \<lparr>contextID = cid, onStateChanged = Some (ident w),
                          connectCalledWith = Some (cleanDomainUrl P N pUrl)\<rparr>\<rparr>)
    \<and> config (snd (connect P N cid pUrl w)) = config w
    \<and> config (storePersistentVariables (snd (connect P N cid pUrl w))) DOMAIN_URL =
        Some (cleanDomainUrl P N pUrl)"
  using assms by (simp add: connect_def Let_def world_defs)

theorem connect_without_session_witness:
  "domain (newDomain 0 Map.empty) = None
   \<and> domainUrl (snd (connect ''ws:'' ''40102'' 1 ''example.com'' (newDomain 0 Map.empty))) =
       ''ws://example.com:40102''
   \<and> config (snd (connect ''ws:'' ''40102'' 1 ''example.com'' (newDomain 0 Map.empty))) = Map.empty
   \<and> config (storePersistentVariables
        (snd (connect ''ws:'' ''40102'' 1 ''example.com'' (newDomain 0 Map.empty)))) DOMAIN_URL =
       Some ''ws://example.com:40102''"
proof -
  have h: "domain (newDomain 0 Map.empty) = None" by (simp add: world_defs)
  have c: "cleanDomainUrl ''ws:'' ''40102'' ''example.com'' = ''ws://example.com:40102''"
    by (simp add: string_defs)
  have n: "config (newDomain 0 Map.empty) = Map.empty" by (simp add: world_defs)
  show ?thesis
    using h connect_without_session [OF h, of "''ws:''" "''40102''" 1 "''example.com''"]
    by (simp add: c n world_defs)
qed

text \<open>
  The claim as stated fails on a new manager with an empty store: after \<open>connect\<close> the
  store holds nothing under the domain-URL key.
\<close>

theorem connect_persists_url_counterexample:
  "domain (newDomain 0 Map.empty) = None
   \<and> config (snd (connect ''ws:'' ''40102'' 1 ''example.com'' (newDomain 0 Map.empty))) DOMAIN_URL
       \<noteq> Some (cleanDomainUrl ''ws:'' ''40102'' ''example.com'')"
  by (simp add: op_defs world_defs)

text \<open>
  Claim C5. Whatever the url, \<open>connect\<close> called while a Connection Session is live throws
  the error "Attempt to connect to domain when already connected" and leaves the world as
  it was: the session, the domain url, the audio client and everything else.
\<close>

theorem connect_while_live_fails:
  assumes "domain w \<noteq> None"
  shows "connect P N cid pUrl w =
     (Inl (Error ''Attempt to connect to domain when already connected''), w)"
  using assms by (simp add: connect_def)

theorem connect_while_live_fails_witness:
  "domain (snd (connect ''ws:'' ''40102'' 1 ''example.com'' (newDomain 0 Map.empty))) \<noteq> None
   \<and> connect ''ws:'' ''40102'' 2 ''other.org''
        (snd (connect ''ws:'' ''40102'' 1 ''example.com'' (newDomain 0 Map.empty))) =
      (Inl (Error ''Attempt to connect to domain when already connected''),
       snd (connect ''ws:'' ''40102'' 1 ''example.com'' (newDomain 0 Map.empty)))"
proof -
  have h: "domain (snd (connect ''ws:'' ''40102'' 1 ''example.com'' (newDomain 0 Map.empty))) \<noteq> None"
    by (rule connect_domain_live)
  show ?thesis using h connect_while_live_fails [OF h] by blast
qed

text \<open>
  Claim C6. For every sequence of raw transitions delivered to the handler, the Signal
  receives exactly one emission per transition, in the order of the transitions, each
  carrying the manager, the display string of the new state and the info string.
\<close>

theorem one_emission_per_transition:
  "emitted (onStateChange (deliver toStr ts w)) =
     emitted (onStateChange w) @ map (\<lambda>(pState, pInfo). (ident w, toStr pState, pInfo)) ts"
proof (induction ts arbitrary: w)
  case Nil
  show ?case by simp
next
  case (Cons t ts)
  obtain s i where t: "t = (s, i)" by (cases t)
  show ?case
    by (simp add: t Cons.IH handle_emitted handle_ident)
qed

text \<open>The sequence Disconnected, Connecting, Connected, Disconnected gives four emissions.\<close>

lemma four_transitions_four_emissions:
  "emitted (onStateChange (deliver stateName
      [(DISCONNECTED, ''a''), (CONNECTING, ''b''), (CONNECTED, ''c''), (DISCONNECTED, ''d'')]
      (newDomain 7 Map.empty))) =
   [(7, ''DISCONNECTED'', ''a''), (7, ''CONNECTING'', ''b''), (7, ''CONNECTED'', ''c''),
    (7, ''DISCONNECTED'', ''d'')]"
  by (simp add: handleOnDomainStateChange_def world_defs)

text \<open>
  A session opened while the manager holds no audio client, followed by any callbacks:
  nothing is constructed before the first Connected callback (\<open>pre\<close> holds none), exactly
  one \<^verbatim>\<open>DomainAudio\<close> is constructed at it, for the new session's context, and none
  after it, whatever follows (\<open>post\<close>).
\<close>

lemma session_without_audio_constructs_one:
  assumes "domain w = None" "audioClient w = None" "CONNECTED \<notin> fst ` set pre"
  shows "constructedAudio (deliver toStr pre (snd (connect P N cid pUrl w))) = constructedAudio w
    \<and> constructedAudio (deliver toStr (pre @ (CONNECTED, pInfo) # post)
         (snd (connect P N cid pUrl w))) = constructedAudio w @ [DomainAudio cid]
    \<and> audioClient (deliver toStr (pre @ (CONNECTED, pInfo) # post)
         (snd (connect P N cid pUrl w))) = Some (DomainAudio cid)"
proof -
  let ?w1 = "snd (connect P N cid pUrl w)"
  let ?srv = "\<lparr>contextID = cid, onStateChanged = Some (ident w),
      connectCalledWith = Some (cleanDomainUrl P N pUrl)\<rparr>"
  have d: "domain ?w1 = Some ?srv"
    using assms(1) by (simp add: connect_def Let_def newDomainServer_def)
  have a: "audioClient ?w1 = None" and c: "constructedAudio ?w1 = constructedAudio w"
    using assms(2) by (simp_all add: connect_audioClient connect_constructedAudio)
  show ?thesis
    using deliver_audio [OF d, of toStr pre]
      deliver_audio [OF d, of toStr "pre @ (CONNECTED, pInfo) # post"] assms(3)
    by (simp add: a c)
qed

text \<open>
  Claim C7. The claim: within one Connection Session's lifetime the Audio Session is
  constructed at the first Connected callback and never again. The code in a second
  session, after connect, Connected and disconnect: \<open>disconnect\<close> has left
  \<^verbatim>\<open>#_audioClient\<close> set, so the new \<open>connect\<close> (context 2) followed by Connecting and
  Connected constructs no \<^verbatim>\<open>DomainAudio\<close>, and the manager holds the audio client of
  context 1 while the session of context 2 is live.
\<close>

theorem second_session_constructs_no_audio:
  "domain (run ''ws:'' ''40102'' stateName
      [Connect ''example.com'' 1, StateChanged CONNECTED [], Disconnect] (newDomain 0 Map.empty)) = None
   \<and> constructedAudio (deliver stateName [(CONNECTING, []), (CONNECTED, [])]
        (snd (connect ''ws:'' ''40102'' 2 ''example.com''
          (run ''ws:'' ''40102'' stateName
            [Connect ''example.com'' 1, StateChanged CONNECTED [], Disconnect]
            (newDomain 0 Map.empty))))) = [DomainAudio 1]
   \<and> audioClient (deliver stateName [(CONNECTING, []), (CONNECTED, [])]
        (snd (connect ''ws:'' ''40102'' 2 ''example.com''
          (run ''ws:'' ''40102'' stateName
            [Connect ''example.com'' 1, StateChanged CONNECTED [], Disconnect]
            (newDomain 0 Map.empty))))) = Some (DomainAudio 1)
   \<and> map_option contextID (domain (deliver stateName [(CONNECTING, []), (CONNECTED, [])]
        (snd (connect ''ws:'' ''40102'' 2 ''example.com''
          (run ''ws:'' ''40102'' stateName
            [Connect ''example.com'' 1, StateChanged CONNECTED [], Disconnect]
            (newDomain 0 Map.empty)))))) = Some 2"
  by (simp add: op_defs world_defs)

text \<open>
  Claim C8. \<open>disconnect\<close> called when no Connection Session exists throws nothing and
  leaves every field of the manager, and the rest of the world, as it was.
\<close>

theorem disconnect_without_session:
  assumes "domain w = None"
  shows "disconnect w = (Inr (), w)"
  using assms by (simp add: disconnect_def)

theorem disconnect_without_session_witness:
  "domain (newDomain 0 Map.empty) = None
   \<and> disconnect (newDomain 0 Map.empty) = (Inr (), newDomain 0 Map.empty)"
proof -
  have h: "domain (newDomain 0 Map.empty) = None" by (simp add: world_defs)
  show ?thesis using h disconnect_without_session [OF h] by blast
qed

section \<open>Claims about cleanDomainUrl\<close>

text \<open>
  Claim C3. With default protocol \<open>P\<close> and default port \<open>N\<close>, \<open>cleanDomainUrl\<close> maps
  "http://example.com" to \<open>P\<close> + "//example.com:" + \<open>N\<close>, maps "https://example.com:400"
  to \<open>P\<close> + "//example.com:400" with no default port appended, and maps "example.com" to
  \<open>P\<close> + "//example.com:" + \<open>N\<close>.
\<close>

theorem cleanDomainUrl_examples:
  "cleanDomainUrl P N ''http://example.com'' = P @ ''//example.com:'' @ N
   \<and> cleanDomainUrl P N ''https://example.com:400'' = P @ ''//example.com:400''
   \<and> cleanDomainUrl P N ''example.com'' = P @ ''//example.com:'' @ N"
  by (simp add: string_defs portRegexExec_append)

text \<open>
  Claim C4, as amended. The claim says that normalization is idempotent for every input,
  with the configured default protocol and port held fixed. The function tests for the
  fixed prefix "ws://" and for a run of digits after the last colon, whatever protocol and
  port are configured, so the claim holds for the configurations that agree with these
  tests: when the default protocol is lower-case (lower-casing leaves it as it is) and
  gives the prefix "ws://" (as "ws:" does) and the default port is a string of decimal
  digits, normalizing a normalized url gives the same string, for every input.
\<close>

theorem cleanDomainUrl_idempotent:
  assumes "toLowerCase P = P" "startsWith (P @ ''//'') ''ws://''" "list_all isDigit N"
  shows "cleanDomainUrl P N (cleanDomainUrl P N x) = cleanDomainUrl P N x"
proof -
  let ?u = "urlBeforePortTest P x"
  let ?y = "cleanDomainUrl P N x"
  have low: "toLowerCase ?y = ?y"
    using urlBeforePortTest_lower [OF assms(1), of x] digits_lower [OF assms(3)]
    by (simp add: cleanDomainUrl_port_step toLowerCase_append toLowerCase_def toLowerChar_colon)
  have ws: "startsWith ?y ''ws://''"
    using urlBeforePortTest_ws [OF assms(2), of x] startsWith_append [of ?u "''ws://''" "'':'' @ N"]
    by (simp add: cleanDomainUrl_port_step)
  have port: "portRegexExec ?y"
    using assms(3) by (simp add: cleanDomainUrl_port_step portRegexExec_append)
  show ?thesis using low ws port by (rule cleanDomainUrl_fixed)
qed

theorem cleanDomainUrl_idempotent_witness:
  "toLowerCase ''ws:'' = ''ws:'' \<and> startsWith (''ws:'' @ ''//'') ''ws://''
   \<and> list_all isDigit ''40102''
   \<and> cleanDomainUrl ''ws:'' ''40102'' (cleanDomainUrl ''ws:'' ''40102'' ''HTTP://Example.com'')
       = cleanDomainUrl ''ws:'' ''40102'' ''HTTP://Example.com''"
proof -
  have a: "toLowerCase ''ws:'' = ''ws:''" by (simp add: string_defs)
  have b: "startsWith (''ws:'' @ ''//'') ''ws://''" by (simp add: string_defs)
  have c: "list_all isDigit ''40102''" by (simp add: string_defs)
  show ?thesis
    using a b c cleanDomainUrl_idempotent [OF a b c, of "''HTTP://Example.com''"] by blast
qed

text \<open>
  The claim as stated fails when the configured default protocol is "wss:": the
  normalized url "wss://example.com:40102" does not start with "ws://", so normalizing it
  again prepends the protocol a second time.
\<close>

theorem cleanDomainUrl_idempotent_counterexample:
  "cleanDomainUrl ''wss:'' ''40102'' ''example.com'' = ''wss://example.com:40102''
   \<and> cleanDomainUrl ''wss:'' ''40102'' (cleanDomainUrl ''wss:'' ''40102'' ''example.com'') =
       ''wss://wss://example.com:40102''
   \<and> cleanDomainUrl ''wss:'' ''40102'' (cleanDomainUrl ''wss:'' ''40102'' ''example.com'')
       \<noteq> cleanDomainUrl ''wss:'' ''40102'' ''example.com''"
  by (simp add: string_defs)

text \<open>
  Claim C10. For every input that ends in a bare colon, the port pattern matches the url
  built so far (it accepts zero digits), so \<open>cleanDomainUrl\<close> appends no default port: it
  returns that url, which ends in the bare colon.
\<close>

theorem cleanDomainUrl_bare_colon:
  assumes "pUrl \<noteq> []" "last pUrl = CHR '':''"
  shows "portRegexExec (urlBeforePortTest P pUrl)
    \<and> cleanDomainUrl P N pUrl = urlBeforePortTest P pUrl
    \<and> cleanDomainUrl P N pUrl \<noteq> [] \<and> last (cleanDomainUrl P N pUrl) = CHR '':''"
proof -
  have e: "urlBeforePortTest P pUrl \<noteq> [] \<and> last (urlBeforePortTest P pUrl) = CHR '':''"
    using assms by (rule urlBeforePortTest_ends_colon)
  then have "portRegexExec (urlBeforePortTest P pUrl)"
    by (simp add: portRegexExec_ends_colon)
  then show ?thesis using e by (simp add: cleanDomainUrl_port_step)
qed

theorem cleanDomainUrl_bare_colon_witness:
  "''example.com:'' \<noteq> [] \<and> last ''example.com:'' = CHR '':''
   \<and> cleanDomainUrl ''ws:'' ''40102'' ''example.com:'' = ''ws://example.com:''
   \<and> last (cleanDomainUrl ''ws:'' ''40102'' ''example.com:'') = CHR '':''"
proof -
  have a: "''example.com:'' \<noteq> []" and b: "last ''example.com:'' = CHR '':''" by simp_all
  have u: "urlBeforePortTest ''ws:'' ''example.com:'' = ''ws://example.com:''"
    by (simp add: string_defs)
  show ?thesis
    using a b cleanDomainUrl_bare_colon [OF a b, of "''ws:''" "''40102''"]
    by (simp add: u)
qed

section \<open>Claims about the Shape builder\<close>

text \<open>
  Claim C9. For every game object \<open>g\<close> and every entity record \<open>e\<close>, one call of the
  Shape builder's \<open>build\<close> adds exactly one component to \<open>g\<close>, a
  \<^verbatim>\<open>ShapeEntityController\<close> constructed from \<open>e\<close>, and changes nothing else.
\<close>

theorem build_adds_one_controller:
  "build g e = g\<lparr>components := components g @ [ShapeEntityController e]\<rparr>
   \<and> length (components (build g e)) = length (components g) + 1"
  by (simp add: build_def addComponent_def)

end
